theory Spec2Isabelle
  imports Main
begin

section \<open>SQL values and three-valued conditions\<close>

text \<open>
  The access rules of the application are the row-level-security policies and the data
  fix of the Sprint 9 security migration (SQL). A nullable column holds \<open>None\<close> for
  NULL. A condition evaluates to true, false or unknown (\<open>None\<close>); a comparison with
  NULL is unknown, \<open>IS NULL\<close> is never unknown, and a \<open>USING\<close> or \<open>WHERE\<close> clause
  keeps a row only when the condition is true.
\<close>

type_synonym sql_bool = "bool option"

type_synonym uuid = nat

definition sql_eq :: "'a option \<Rightarrow> 'a option \<Rightarrow> sql_bool" where
  "sql_eq a b = (case a of None \<Rightarrow> None
                 | Some x \<Rightarrow> (case b of None \<Rightarrow> None | Some y \<Rightarrow> Some (x = y)))"

definition sql_lt :: "int option \<Rightarrow> int option \<Rightarrow> sql_bool" where
  "sql_lt a b = (case a of None \<Rightarrow> None
                 | Some x \<Rightarrow> (case b of None \<Rightarrow> None | Some y \<Rightarrow> Some (x < y)))"

definition is_null :: "'a option \<Rightarrow> sql_bool" where
  "is_null a = Some (a = None)"

definition is_not_null :: "'a option \<Rightarrow> sql_bool" where
  "is_not_null a = (case a of None \<Rightarrow> Some False | Some x \<Rightarrow> Some True)"

definition sql_and :: "sql_bool \<Rightarrow> sql_bool \<Rightarrow> sql_bool" where
  "sql_and a b =
     (if a = Some False \<or> b = Some False then Some False
      else if a = Some True \<and> b = Some True then Some True
      else None)"

definition sql_or :: "sql_bool \<Rightarrow> sql_bool \<Rightarrow> sql_bool" where
  "sql_or a b =
     (if a = Some True \<or> b = Some True then Some True
      else if a = Some False \<and> b = Some False then Some False
      else None)"

definition sql_holds :: "sql_bool \<Rightarrow> bool" where
  "sql_holds c = (c = Some True)"

section \<open>Tables and the request\<close>

text \<open>
  The columns of \<open>people\<close> that the policies, the data fix and the claims read; every
  other column of the table lives in the record's extension. \<open>privacy_level\<close> is the
  privacy tier (0 public, 1 members, 2 private).
\<close>

record person =
  id_col :: uuid
  display_name :: "string option"
  generation :: "int option"
  is_living :: "bool option"
  phone :: "string option"
  email :: "string option"
  zalo :: "string option"
  facebook :: "string option"
  address :: "string option"
  biography :: "string option"
  notes_col :: "string option"
  privacy_level :: "int option"

record profile =
  user_id :: "uuid option"
  role :: "string option"

text \<open>
  What a policy can see besides the row: the requester's \<open>auth.uid()\<close> (NULL for an
  unauthenticated request) and the \<open>profiles\<close> table that the admin policy queries.
\<close>

record env =
  auth_uid :: "uuid option"
  profiles :: "profile list"

section \<open>Policies on people\<close>

text \<open>
  \<^verbatim>\<open>CREATE POLICY "Public read for public non-contact people" ON people
    FOR SELECT USING (privacy_level = 0 AND phone IS NULL AND email IS NULL
      AND zalo IS NULL AND facebook IS NULL AND address IS NULL);\<close>
\<close>

definition public_read_non_contact :: "'a person_scheme \<Rightarrow> sql_bool" where
  "public_read_non_contact r =
     sql_and (sql_eq (privacy_level r) (Some 0))
       (sql_and (is_null (phone r))
         (sql_and (is_null (email r))
           (sql_and (is_null (zalo r))
             (sql_and (is_null (facebook r)) (is_null (address r))))))"

text \<open>
  \<^verbatim>\<open>CREATE POLICY "Authenticated users can read non-private people" ON people
    FOR SELECT USING (auth.uid() IS NOT NULL AND privacy_level < 2);\<close>
\<close>

definition authenticated_read_non_private :: "env \<Rightarrow> 'a person_scheme \<Rightarrow> sql_bool" where
  "authenticated_read_non_private e r =
     sql_and (is_not_null (auth_uid e)) (sql_lt (privacy_level r) (Some 2))"

text \<open>
  \<^verbatim>\<open>EXISTS (SELECT 1 FROM profiles p
            WHERE p.user_id = auth.uid() AND p.role = 'admin')\<close>
\<close>

definition admin_exists :: "env \<Rightarrow> bool" where
  "admin_exists e =
     list_ex (\<lambda>p. sql_holds (sql_and (sql_eq (user_id p) (auth_uid e))
                                     (sql_eq (role p) (Some ''admin''))))
       (profiles e)"

definition admins_read_all :: "env \<Rightarrow> 'a person_scheme \<Rightarrow> sql_bool" where
  "admins_read_all e r = Some (admin_exists e)"

text \<open>
  The three policies are permissive, so a row is readable when at least one of them is
  true for it. These are the \<open>SELECT\<close> policies the migration leaves on \<open>people\<close>.
\<close>

definition people_select :: "env \<Rightarrow> 'a person_scheme \<Rightarrow> bool" where
  "people_select e r =
     (sql_holds (public_read_non_contact r)
      \<or> sql_holds (authenticated_read_non_private e r)
      \<or> sql_holds (admins_read_all e r))"

text \<open>
  A query returns the readable rows. Row-level security filters rows, not columns: a
  readable row is returned with every column it stores.
\<close>

definition select_people :: "env \<Rightarrow> 'a person_scheme list \<Rightarrow> 'a person_scheme list" where
  "select_people e tbl = filter (people_select e) tbl"

section \<open>Actors\<close>

text \<open>
  The policies tell three kinds of requester apart: no \<open>auth.uid()\<close>; an
  \<open>auth.uid()\<close> whose profile has role admin; any other \<open>auth.uid()\<close>.
\<close>

datatype actor = Anonymous | Member uuid | Admin uuid

definition actor_of :: "env \<Rightarrow> actor" where
  "actor_of e =
     (case auth_uid e of
        None \<Rightarrow> Anonymous
      | Some u \<Rightarrow> if admin_exists e then Admin u else Member u)"

section \<open>Policies on profiles, events and media\<close>

text \<open>
  \<^verbatim>\<open>CREATE POLICY "Authenticated users can read profiles"
    ON profiles FOR SELECT USING (auth.uid() IS NOT NULL);\<close>
\<close>

definition profiles_select :: "env \<Rightarrow> 'a profile_scheme \<Rightarrow> bool" where
  "profiles_select e p = sql_holds (is_not_null (auth_uid e))"

text \<open>
  An event row, with the columns the add-event dialog fills; \<open>person_id\<close> is the person
  the event is about, NULL when there is none.
\<close>

record event =
  title :: string
  event_type :: string
  person_id :: "uuid option"
  event_lunar :: "string option"
  event_date :: "string option"
  location :: "string option"
  description :: "string option"
  recurring :: bool

text \<open>
  \<^verbatim>\<open>CREATE POLICY "Authenticated can read events" ON events
    FOR SELECT USING (auth.uid() IS NOT NULL);\<close>
\<close>

definition events_select :: "env \<Rightarrow> 'a event_scheme \<Rightarrow> bool" where
  "events_select e ev = sql_holds (is_not_null (auth_uid e))"

text \<open>
  Modelled from the spec: the columns of the \<open>media\<close> table are declared outside the
  migration; a media asset is a file reference optionally attached to a person.
\<close>

record media =
  media_person_id :: "uuid option"

text \<open>
  \<^verbatim>\<open>CREATE POLICY "Authenticated can read media" ON media
    FOR SELECT USING (auth.uid() IS NOT NULL);\<close>
\<close>

definition media_select :: "env \<Rightarrow> 'a media_scheme \<Rightarrow> bool" where
  "media_select e m = sql_holds (is_not_null (auth_uid e))"

section \<open>The data fix SEC-05\<close>

text \<open>
  \<^verbatim>\<open>UPDATE people SET privacy_level = 1
  WHERE privacy_level = 0 AND is_living = true
    AND (phone IS NOT NULL OR email IS NOT NULL OR zalo IS NOT NULL
         OR facebook IS NOT NULL OR address IS NOT NULL);\<close>
  The statement rewrites the rows for which the condition is true and leaves the others
  as they are.
\<close>

definition sweep_where :: "'a person_scheme \<Rightarrow> sql_bool" where
  "sweep_where r =
     sql_and (sql_eq (privacy_level r) (Some 0))
       (sql_and (sql_eq (is_living r) (Some True))
         (sql_or (is_not_null (phone r))
           (sql_or (is_not_null (email r))
             (sql_or (is_not_null (zalo r))
               (sql_or (is_not_null (facebook r)) (is_not_null (address r)))))))"

definition sweep_row :: "'a person_scheme \<Rightarrow> 'a person_scheme" where
  "sweep_row r = (if sql_holds (sweep_where r) then r\<lparr>privacy_level := Some 1\<rparr> else r)"

definition sweep :: "'a person_scheme list \<Rightarrow> 'a person_scheme list" where
  "sweep tbl = map sweep_row tbl"

section \<open>The tier of a new person\<close>





section \<open>Example data\<close>

definition the_profiles :: "profile list" where
  "the_profiles =
     [\<lparr>user_id = Some 1, role = Some ''admin''\<rparr>, \<lparr>user_id = Some 2, role = Some ''member''\<rparr>]"

definition anon_env :: env where
  "anon_env = \<lparr>auth_uid = None, profiles = the_profiles\<rparr>"

definition member_env :: env where
  "member_env = \<lparr>auth_uid = Some 2, profiles = the_profiles\<rparr>"

definition admin_env :: env where
  "admin_env = \<lparr>auth_uid = Some 1, profiles = the_profiles\<rparr>"

text \<open>Scenario 1 of the specification: public tier, living, a phone number stored.\<close>

definition living_with_phone :: person where
  "living_with_phone =
     \<lparr>id_col = 10, display_name = Some ''An'', generation = Some 12, is_living = Some True,
      phone = Some ''0900000000'', email = None, zalo = None, facebook = None,
      address = None, biography = None, notes_col = None, privacy_level = Some 0\<rparr>"

text \<open>Scenario 2: a public ancestor without contact data, with a biography and notes.\<close>

definition ancestor :: person where
  "ancestor =
     \<lparr>id_col = 20, display_name = Some ''Cu To'', generation = Some 1, is_living = Some False,
      phone = None, email = None, zalo = None, facebook = None, address = None,
      biography = Some ''founder of the line'', notes_col = Some ''grave moved'',
      privacy_level = Some 0\<rparr>"

text \<open>A living person on the public tier with no contact data stored.\<close>

definition living_no_contact :: person where
  "living_no_contact =
     \<lparr>id_col = 25, display_name = Some ''Binh'', generation = Some 12, is_living = Some True,
      phone = None, email = None, zalo = None, facebook = None, address = None,
      biography = None, notes_col = None, privacy_level = Some 0\<rparr>"

text \<open>Scenarios 3 and 4: a members-only person and a private person.\<close>

definition members_person :: person where
  "members_person =
     \<lparr>id_col = 28, display_name = Some ''Chi'', generation = Some 11, is_living = Some True,
      phone = Some ''0911111111'', email = None, zalo = None, facebook = None,
      address = None, biography = None, notes_col = None, privacy_level = Some 1\<rparr>"

definition private_person :: person where
  "private_person =
     \<lparr>id_col = 30, display_name = Some ''Dung'', generation = Some 11, is_living = Some True,
      phone = None, email = Some ''dung@example.org'', zalo = None, facebook = None,
      address = None, biography = None, notes_col = None, privacy_level = Some 2\<rparr>"

text \<open>An event and a media asset about the private person.\<close>

definition private_event :: event where
  "private_event =
     \<lparr>title = ''Sinh nhat'', event_type = ''other'', person_id = Some 30,
      event_lunar = None, event_date = Some ''2026-03-01'', location = None,
      description = None, recurring = True\<rparr>"

definition private_media :: media where
  "private_media = \<lparr>media_person_id = Some 30\<rparr>"

section \<open>Basic facts\<close>

lemma sql_holds_and [simp]:
  "sql_holds (sql_and a b) = (sql_holds a \<and> sql_holds b)"
  by (auto simp: sql_holds_def sql_and_def)

lemma sql_holds_or [simp]:
  "sql_holds (sql_or a b) = (sql_holds a \<or> sql_holds b)"
  by (auto simp: sql_holds_def sql_or_def)

lemma sql_holds_is_null [simp]: "sql_holds (is_null a) = (a = None)"
  by (simp add: sql_holds_def is_null_def)

lemma sql_holds_is_not_null [simp]: "sql_holds (is_not_null a) = (a \<noteq> None)"
  by (cases a) (simp_all add: sql_holds_def is_not_null_def)

lemma sql_holds_eq_const [simp]: "sql_holds (sql_eq a (Some v)) = (a = Some v)"
  by (cases a) (auto simp: sql_holds_def sql_eq_def)

lemma sql_holds_eq_null [simp]: "sql_holds (sql_eq a None) = False"
  by (cases a) (simp_all add: sql_holds_def sql_eq_def)

lemma sql_holds_lt_const [simp]:
  "sql_holds (sql_lt a (Some v)) = (\<exists>t. a = Some t \<and> t < v)"
  by (cases a) (auto simp: sql_holds_def sql_lt_def)

lemma sql_holds_Some [simp]: "sql_holds (Some b) = b"
  by (simp add: sql_holds_def)

lemma anonymous_not_admin: "auth_uid e = None \<Longrightarrow> \<not> admin_exists e"
  by (simp add: admin_exists_def list_ex_iff)

lemma actor_of_Anonymous: "(actor_of e = Anonymous) = (auth_uid e = None)"
  by (simp add: actor_of_def split: option.splits)

lemma actor_of_Member:
  "(actor_of e = Member u) = (auth_uid e = Some u \<and> \<not> admin_exists e)"
  by (auto simp: actor_of_def split: option.splits)

lemma actor_of_Admin:
  "(actor_of e = Admin u) = (auth_uid e = Some u \<and> admin_exists e)"
  by (auto simp: actor_of_def split: option.splits)

lemma people_select_anonymous:
  "auth_uid e = None \<Longrightarrow>
   people_select e r =
     (privacy_level r = Some 0 \<and> phone r = None \<and> email r = None \<and> zalo r = None
      \<and> facebook r = None \<and> address r = None)"
  by (simp add: people_select_def public_read_non_contact_def
      authenticated_read_non_private_def admins_read_all_def anonymous_not_admin)

lemma actor_of_anon_env: "actor_of anon_env = Anonymous"
  by (simp add: actor_of_def anon_env_def)

lemma actor_of_member_env: "actor_of member_env = Member 2"
  by (simp add: actor_of_def member_env_def admin_exists_def the_profiles_def)

lemma actor_of_admin_env: "actor_of admin_env = Admin 1"
  by (simp add: actor_of_def admin_env_def admin_exists_def the_profiles_def)

lemma auth_uid_anon_env: "auth_uid anon_env = None"
  by (simp add: anon_env_def)

lemma member_env_facts: "auth_uid member_env = Some 2" "\<not> admin_exists member_env"
  by (simp_all add: member_env_def admin_exists_def the_profiles_def)

lemma people_select_member:
  "auth_uid e = Some u \<Longrightarrow> \<not> admin_exists e \<Longrightarrow>
   people_select e r = (\<exists>t. privacy_level r = Some t \<and> t < 2)"
  by (auto simp: people_select_def public_read_non_contact_def
      authenticated_read_non_private_def admins_read_all_def)

lemma member_denied_private: "\<not> people_select member_env private_person"
  by (simp add: people_select_member [OF member_env_facts] private_person_def)

lemma people_select_admin: "admin_exists e \<Longrightarrow> people_select e r"
  by (simp add: people_select_def admins_read_all_def)

lemma sweep_where_iff:
  "sql_holds (sweep_where r) =
     (privacy_level r = Some 0 \<and> is_living r = Some True
      \<and> \<not> (phone r = None \<and> email r = None \<and> zalo r = None
             \<and> facebook r = None \<and> address r = None))"
  by (auto simp: sweep_where_def)

lemma sweep_row_idem: "sweep_row (sweep_row r) = sweep_row r"
  by (simp add: sweep_row_def sweep_where_iff)

lemma sweep_row_tier:
  "privacy_level (sweep_row r) = privacy_level r
   \<or> (privacy_level r = Some 0 \<and> privacy_level (sweep_row r) = Some 1)"
  by (simp add: sweep_row_def sweep_where_iff)

section \<open>The anonymous path\<close>

text \<open>
  C1 (no contact leak). For an anonymous requester, a people row that the policies make
  readable has all five contact columns (phone, email, zalo, facebook, address) NULL, and
  so has every row a query returns: no stored contact value is ever exposed.
\<close>

theorem no_contact_leak:
  assumes "actor_of e = Anonymous"
  shows "(people_select e r \<longrightarrow>
            phone r = None \<and> email r = None \<and> zalo r = None
            \<and> facebook r = None \<and> address r = None)
         \<and> (\<forall>x \<in> set (select_people e tbl).
              phone x = None \<and> email x = None \<and> zalo x = None
              \<and> facebook x = None \<and> address x = None)"
proof -
  from assms have anon: "auth_uid e = None"
    by (simp add: actor_of_Anonymous)
  then show ?thesis
    by (simp add: select_people_def people_select_anonymous)
qed

theorem no_contact_leak_witness:
  "actor_of anon_env = Anonymous
   \<and> people_select anon_env ancestor
   \<and> select_people anon_env [living_with_phone, ancestor, private_person] = [ancestor]
   \<and> phone ancestor = None \<and> email ancestor = None \<and> zalo ancestor = None
   \<and> facebook ancestor = None \<and> address ancestor = None"
  using no_contact_leak [OF actor_of_anon_env, of ancestor
      "[living_with_phone, ancestor, private_person]"]
  by (simp add: actor_of_anon_env select_people_def people_select_anonymous
      auth_uid_anon_env ancestor_def living_with_phone_def private_person_def)

text \<open>
  C2 (anonymous row rule). For an anonymous requester a people row is readable if and
  only if its tier is 0 and all five contact columns are NULL; any other tier, or any
  contact column with a value, is denied. In particular a row with tier 0, \<open>is_living\<close>
  true and a phone number is denied.
\<close>

theorem anonymous_row_rule:
  assumes "actor_of e = Anonymous"
  shows "(people_select e r =
            (privacy_level r = Some 0 \<and> phone r = None \<and> email r = None \<and> zalo r = None
             \<and> facebook r = None \<and> address r = None))
         \<and> (privacy_level r = Some 0 \<and> is_living r = Some True \<and> phone r = Some n
              \<longrightarrow> \<not> people_select e r)"
  using assms by (simp add: actor_of_Anonymous people_select_anonymous)

theorem anonymous_row_rule_witness:
  "actor_of anon_env = Anonymous
   \<and> privacy_level living_with_phone = Some 0
   \<and> is_living living_with_phone = Some True
   \<and> phone living_with_phone = Some ''0900000000''
   \<and> \<not> people_select anon_env living_with_phone
   \<and> people_select anon_env ancestor"
  using anonymous_row_rule [OF actor_of_anon_env, of living_with_phone "''0900000000''"]
    anonymous_row_rule [OF actor_of_anon_env, of ancestor "''0900000000''"]
  by (simp add: actor_of_anon_env living_with_phone_def ancestor_def)

text \<open>
  C3, as the specification states it: when an anonymous requester may read a person, the
  biography and the notes are kept from the result. The policies cannot do that: the
  public ancestor is returned to the anonymous requester with its biography and notes.
\<close>

theorem anonymous_fields_counterexample:
  "actor_of anon_env = Anonymous
   \<and> privacy_level ancestor = Some 0
   \<and> people_select anon_env ancestor
   \<and> map biography (select_people anon_env [ancestor]) = [Some ''founder of the line'']
   \<and> map notes_col (select_people anon_env [ancestor]) = [Some ''grave moved'']"
  by (simp add: actor_of_anon_env select_people_def people_select_anonymous
      auth_uid_anon_env ancestor_def)

text \<open>
  C3, amended. When an anonymous requester may read a person (tier 0, no contact data),
  the row is returned whole: name and generation are in the result as stored, and so are
  the biography and the notes; only the contact columns are known to be NULL.
\<close>

theorem anonymous_reads_whole_row:
  assumes "actor_of e = Anonymous"
    and "privacy_level r = Some 0"
    and "phone r = None \<and> email r = None \<and> zalo r = None \<and> facebook r = None
         \<and> address r = None"
  shows "select_people e [r] = [r]
         \<and> map display_name (select_people e [r]) = [display_name r]
         \<and> map generation (select_people e [r]) = [generation r]
         \<and> map biography (select_people e [r]) = [biography r]
         \<and> map notes_col (select_people e [r]) = [notes_col r]"
proof -
  from assms(1) have "auth_uid e = None"
    by (simp add: actor_of_Anonymous)
  with assms(2,3) have "people_select e r"
    by (simp add: people_select_anonymous)
  then show ?thesis
    by (simp add: select_people_def)
qed

theorem anonymous_reads_whole_row_witness:
  "actor_of anon_env = Anonymous
   \<and> select_people anon_env [ancestor] = [ancestor]
   \<and> map display_name (select_people anon_env [ancestor]) = [Some ''Cu To'']
   \<and> map generation (select_people anon_env [ancestor]) = [Some 1]
   \<and> map biography (select_people anon_env [ancestor]) = [Some ''founder of the line'']"
proof -
  have tier: "privacy_level ancestor = Some 0"
    by (simp add: ancestor_def)
  have contacts: "phone ancestor = None \<and> email ancestor = None \<and> zalo ancestor = None
      \<and> facebook ancestor = None \<and> address ancestor = None"
    by (simp add: ancestor_def)
  from anonymous_reads_whole_row [OF actor_of_anon_env tier contacts]
  show ?thesis
    by (simp add: actor_of_anon_env ancestor_def)
qed

text \<open>
  C10. What an anonymous requester may read does not depend on \<open>is_living\<close>: a row with
  tier 0 and all five contact columns NULL is readable also when \<open>is_living\<close> is true,
  and changing the flag of any row never changes the decision.
\<close>

theorem anonymous_ignores_is_living:
  assumes "actor_of e = Anonymous"
    and "privacy_level r = Some 0"
    and "phone r = None \<and> email r = None \<and> zalo r = None \<and> facebook r = None
         \<and> address r = None"
  shows "people_select e (r\<lparr>is_living := Some True\<rparr>)
         \<and> people_select e (r\<lparr>is_living := l\<rparr>)
         \<and> people_select e (x\<lparr>is_living := l\<rparr>) = people_select e x"
  using assms by (simp add: actor_of_Anonymous people_select_anonymous)

theorem anonymous_ignores_is_living_witness:
  "actor_of anon_env = Anonymous
   \<and> is_living living_no_contact = Some True
   \<and> people_select anon_env living_no_contact"
proof -
  have tier: "privacy_level living_no_contact = Some 0"
    by (simp add: living_no_contact_def)
  have contacts: "phone living_no_contact = None \<and> email living_no_contact = None
      \<and> zalo living_no_contact = None \<and> facebook living_no_contact = None
      \<and> address living_no_contact = None"
    by (simp add: living_no_contact_def)
  have same: "living_no_contact\<lparr>is_living := Some True\<rparr> = living_no_contact"
    by (simp add: living_no_contact_def)
  from anonymous_ignores_is_living [OF actor_of_anon_env tier contacts,
      where l = "Some True" and x = living_no_contact]
  show ?thesis
    by (simp add: actor_of_anon_env same) (simp add: living_no_contact_def)
qed

section \<open>Members and administrators\<close>

text \<open>
  C6 (member row rule). For a member a people row is readable if and only if its tier
  is below 2 (tiers 0 and 1). An administrator may read every row, the tier-2 rows
  included, and gets the row with all its columns.
\<close>

theorem member_row_rule:
  assumes "actor_of em = Member u"
    and "actor_of ea = Admin a"
  shows "(people_select em r = (\<exists>t. privacy_level r = Some t \<and> t < 2))
         \<and> (privacy_level r = Some 2 \<longrightarrow> \<not> people_select em r)
         \<and> people_select ea r
         \<and> select_people ea [r] = [r]"
proof -
  from assms(1) have m: "auth_uid em = Some u" "\<not> admin_exists em"
    by (simp_all add: actor_of_Member)
  from assms(2) have a: "admin_exists ea"
    by (simp add: actor_of_Admin)
  have "people_select em r = (\<exists>t. privacy_level r = Some t \<and> t < 2)"
    using m by (rule people_select_member)
  moreover have "people_select ea r"
    using a by (rule people_select_admin)
  ultimately show ?thesis
    by (simp add: select_people_def)
qed

theorem member_row_rule_witness:
  "actor_of member_env = Member 2 \<and> actor_of admin_env = Admin 1
   \<and> privacy_level private_person = Some 2
   \<and> \<not> people_select member_env private_person
   \<and> people_select admin_env private_person
   \<and> select_people admin_env [private_person] = [private_person]"
  using member_row_rule [OF actor_of_member_env actor_of_admin_env, of private_person]
  by (simp add: actor_of_member_env actor_of_admin_env) (simp add: private_person_def)

text \<open>
  C9 (tier monotonicity). A people row that is denied to a member is denied to an
  anonymous requester as well: the anonymous decision is never the more permissive one.
\<close>

theorem tier_monotonicity:
  assumes "actor_of em = Member u"
    and "actor_of ea = Anonymous"
    and "\<not> people_select em r"
  shows "\<not> people_select ea r"
proof
  assume "people_select ea r"
  with assms(2) have "privacy_level r = Some 0"
    by (simp add: actor_of_Anonymous people_select_anonymous)
  moreover from assms(1) have "auth_uid em = Some u" "\<not> admin_exists em"
    by (simp_all add: actor_of_Member)
  ultimately have "people_select em r"
    by (simp add: people_select_member)
  with assms(3) show False
    by simp
qed

theorem tier_monotonicity_witness:
  "actor_of member_env = Member 2 \<and> actor_of anon_env = Anonymous
   \<and> \<not> people_select member_env private_person
   \<and> \<not> people_select anon_env private_person"
proof -
  note denied = member_denied_private
  from tier_monotonicity [OF actor_of_member_env actor_of_anon_env denied] denied
  show ?thesis
    by (simp add: actor_of_member_env actor_of_anon_env)
qed

section \<open>Profiles\<close>

text \<open>
  C7 (profile isolation). A profile row is denied to an anonymous requester and readable
  for every authenticated one, member or administrator. The decision looks at nothing
  but whether the requester is authenticated: no column of the row, and no tier.
\<close>

theorem profile_isolation:
  "(actor_of e = Anonymous \<longrightarrow> \<not> profiles_select e p)
   \<and> (actor_of e = Member u \<or> actor_of e = Admin u \<longrightarrow> profiles_select e p)
   \<and> profiles_select e p = (actor_of e \<noteq> Anonymous)
   \<and> profiles_select e p = profiles_select e q"
  by (auto simp: profiles_select_def actor_of_def split: option.splits)

theorem profile_isolation_witness:
  "actor_of anon_env = Anonymous
   \<and> \<not> profiles_select anon_env \<lparr>user_id = Some 1, role = Some ''admin''\<rparr>
   \<and> actor_of member_env = Member 2
   \<and> profiles_select member_env \<lparr>user_id = Some 1, role = Some ''admin''\<rparr>
   \<and> actor_of admin_env = Admin 1
   \<and> profiles_select admin_env \<lparr>user_id = Some 2, role = Some ''member''\<rparr>"
  using profile_isolation [where e = anon_env and u = 2
      and p = "\<lparr>user_id = Some 1, role = Some ''admin''\<rparr>"
      and q = "\<lparr>user_id = Some 1, role = Some ''admin''\<rparr>"]
    profile_isolation [where e = member_env and u = 2
      and p = "\<lparr>user_id = Some 1, role = Some ''admin''\<rparr>"
      and q = "\<lparr>user_id = Some 1, role = Some ''admin''\<rparr>"]
    profile_isolation [where e = admin_env and u = 1
      and p = "\<lparr>user_id = Some 2, role = Some ''member''\<rparr>"
      and q = "\<lparr>user_id = Some 2, role = Some ''member''\<rparr>"]
  by (simp add: actor_of_anon_env actor_of_member_env actor_of_admin_env)

section \<open>Events and media\<close>

text \<open>
  C5, as the specification states it: an event about a person inherits the person's tier,
  so an event about a tier-2 person is denied to a member. The policies on events and
  media do not look at the person: the member, who may not read the private person, reads
  the event and the media asset about that person.
\<close>

theorem event_inherits_tier_counterexample:
  "actor_of member_env = Member 2
   \<and> person_id private_event = Some (id_col private_person)
   \<and> media_person_id private_media = Some (id_col private_person)
   \<and> privacy_level private_person = Some 2
   \<and> \<not> people_select member_env private_person
   \<and> events_select member_env private_event
   \<and> media_select member_env private_media"
  by (simp add: actor_of_member_env member_denied_private events_select_def
      media_select_def member_env_facts)
    (simp add: private_person_def private_event_def private_media_def)

text \<open>
  C5, amended. An event or media row has no tier and inherits none: it is readable
  exactly when the requester is authenticated (member or administrator), whatever person
  it refers to, and is denied to an anonymous requester.
\<close>

theorem events_media_authenticated_only:
  "events_select e ev = (actor_of e \<noteq> Anonymous)
   \<and> media_select e m = (actor_of e \<noteq> Anonymous)
   \<and> events_select e (ev\<lparr>person_id := pid\<rparr>) = events_select e ev
   \<and> media_select e (m\<lparr>media_person_id := pid\<rparr>) = media_select e m"
  by (simp add: events_select_def media_select_def actor_of_Anonymous)

theorem events_media_authenticated_only_witness:
  "events_select member_env private_event
   \<and> media_select member_env private_media
   \<and> \<not> events_select anon_env private_event
   \<and> \<not> media_select anon_env private_media"
  using events_media_authenticated_only [of member_env private_event private_media]
    events_media_authenticated_only [of anon_env private_event private_media]
  by (simp add: actor_of_member_env actor_of_anon_env)

section \<open>The reclassification sweep\<close>

text \<open>
  C8. The sweep rewrites to tier 1 exactly the rows with tier 0, \<open>is_living\<close> true and
  at least one contact column not NULL, and leaves every other row as it is; it never
  lowers a tier (a tier stays, or goes from 0 to 1); and it is idempotent: sweeping a
  table twice gives the same table as sweeping it once.
\<close>

theorem sweep_correct:
  "sweep tbl =
     map (\<lambda>r. if privacy_level r = Some 0 \<and> is_living r = Some True
                  \<and> \<not> (phone r = None \<and> email r = None \<and> zalo r = None
                         \<and> facebook r = None \<and> address r = None)
               then r\<lparr>privacy_level := Some 1\<rparr> else r) tbl
   \<and> list_all2 (\<lambda>r r'. privacy_level r' = privacy_level r
                        \<or> (privacy_level r = Some 0 \<and> privacy_level r' = Some 1))
       tbl (sweep tbl)
   \<and> sweep (sweep tbl) = sweep tbl"
proof -
  have "sweep tbl =
     map (\<lambda>r. if privacy_level r = Some 0 \<and> is_living r = Some True
                  \<and> \<not> (phone r = None \<and> email r = None \<and> zalo r = None
                         \<and> facebook r = None \<and> address r = None)
               then r\<lparr>privacy_level := Some 1\<rparr> else r) tbl"
    by (simp add: sweep_def sweep_row_def sweep_where_iff)
  moreover have "list_all2 (\<lambda>r r'. privacy_level r' = privacy_level r
                        \<or> (privacy_level r = Some 0 \<and> privacy_level r' = Some 1))
       tbl (sweep tbl)"
    by (simp add: sweep_def list_all2_map2 list_all2_same sweep_row_tier)
  moreover have "sweep (sweep tbl) = sweep tbl"
    by (simp add: sweep_def sweep_row_idem)
  ultimately show ?thesis
    by blast
qed

theorem sweep_correct_witness:
  "sweep [living_with_phone, ancestor, living_no_contact, private_person] =
     [living_with_phone\<lparr>privacy_level := Some 1\<rparr>, ancestor, living_no_contact,
      private_person]
   \<and> sweep (sweep [living_with_phone, ancestor, living_no_contact, private_person]) =
       sweep [living_with_phone, ancestor, living_no_contact, private_person]"
proof -
  let ?tbl = "[living_with_phone, ancestor, living_no_contact, private_person]"
  note whole = sweep_correct [of ?tbl]
  from whole have rows: "sweep ?tbl =
     map (\<lambda>r. if privacy_level r = Some 0 \<and> is_living r = Some True
                  \<and> \<not> (phone r = None \<and> email r = None \<and> zalo r = None
                         \<and> facebook r = None \<and> address r = None)
               then r\<lparr>privacy_level := Some 1\<rparr> else r) ?tbl"
    by (rule conjunct1)
  from whole have twice: "sweep (sweep ?tbl) = sweep ?tbl"
    by blast
  have phone_row: "privacy_level living_with_phone = Some 0"
      "is_living living_with_phone = Some True" "phone living_with_phone \<noteq> None"
    by (simp_all add: living_with_phone_def)
  have other_rows: "is_living ancestor \<noteq> Some True" "phone living_no_contact = None"
      "email living_no_contact = None" "zalo living_no_contact = None"
      "facebook living_no_contact = None" "address living_no_contact = None"
      "privacy_level private_person \<noteq> Some 0"
    by (simp_all add: ancestor_def living_no_contact_def private_person_def)
  from rows have "sweep ?tbl =
     [living_with_phone\<lparr>privacy_level := Some 1\<rparr>, ancestor, living_no_contact,
      private_person]"
    by (simp add: phone_row other_rows)
  with twice show ?thesis
    by simp
qed

section \<open>The default tier\<close>


end
